theory Spec2Isabelle
  imports Main
begin

section \<open>The session hook \<open>useAuth\<close> (src/hooks/useAuth.ts)\<close>

subsection \<open>Data\<close>

datatype UserRole = candidate | recruiter

text \<open>
  \<open>interface FlaskUser\<close>. The fields \<open>id\<close>, \<open>name\<close> and \<open>role\<close> carry the suffix
  \<open>_u\<close>: \<open>id\<close> is a HOL constant and \<open>role\<close> is also a field of \<open>AuthState\<close>.
\<close>

record FlaskUser =
  id_u :: string
  name_u :: "string option"
  first_name :: string
  last_name :: string
  email :: string
  role_u :: UserRole

text \<open>Of a session object the hook only ever reads or writes \<open>access_token\<close>.\<close>

datatype Session = Session (access_token: string)

record AuthState =
  user :: "FlaskUser option"
  session :: "Session option"
  role :: "UserRole option"
  loading :: bool

text \<open>The literal \<open>{ user: null, session: null, role: null, loading: false }\<close>.\<close>

definition signedOut :: AuthState where
  "signedOut = \<lparr>user = None, session = None, role = None, loading = False\<rparr>"

text \<open>The first value of \<open>useState\<close>.\<close>

definition initialAuthState :: AuthState where
  "initialAuthState = \<lparr>user = None, session = None, role = None, loading = True\<rparr>"

subsection \<open>Values of the platform\<close>

text \<open>
  What \<open>JSON.parse\<close> returns. Numbers are whole (a NumericDate in seconds); fractions and
  exponents are outside the model.
\<close>

datatype json =
  JNull | JBool bool | JNumber int | JString string
  | JArray "json list" | JObject "(string \<times> json) list"

text \<open>
  \<open>atob\<close> and \<open>JSON.parse\<close> belong to the browser, not to the repository; they are
  parameters, \<open>None\<close> standing for a thrown exception. \<open>ToNumber\<close> is the numeric coercion
  of \<open>*\<close> on the operands that are neither numbers, booleans nor \<open>null\<close>, \<open>None\<close>
  standing for \<open>NaN\<close>.
\<close>

record platform =
  atob :: "string \<Rightarrow> string option"
  JSON_parse :: "string \<Rightarrow> json option"
  ToNumber :: "json \<Rightarrow> int option"

text \<open>Truthiness of a value, and of a \<open>string | null\<close>.\<close>

fun truthy :: "json \<Rightarrow> bool" where
  "truthy JNull = False"
| "truthy (JBool b) = b"
| "truthy (JNumber n) = (n \<noteq> 0)"
| "truthy (JString s) = (s \<noteq> [])"
| "truthy (JArray _) = True"
| "truthy (JObject _) = True"

definition truthy_str :: "string option \<Rightarrow> bool" where
  "truthy_str s = (case s of None \<Rightarrow> False | Some x \<Rightarrow> x \<noteq> [])"

text \<open>
  Property access \<open>v.exp\<close> on a truthy value: an object yields the member (the last one
  when the key is repeated, as \<open>JSON.parse\<close> keeps it), every other value \<open>undefined\<close>
  (\<open>None\<close>).
\<close>

fun property :: "json \<Rightarrow> string \<Rightarrow> json option" where
  "property (JObject kvs) k = map_of (rev kvs) k"
| "property _ k = None"

fun to_number :: "platform \<Rightarrow> json \<Rightarrow> int option" where
  "to_number pf (JNumber n) = Some n"
| "to_number pf (JBool b) = Some (if b then 1 else 0)"
| "to_number pf JNull = Some 0"
| "to_number pf v = ToNumber pf v"

text \<open>\<open>String.prototype.split\<close> with a one-character separator.\<close>

fun split :: "char \<Rightarrow> string \<Rightarrow> string list" where
  "split c [] = [[]]"
| "split c (x # xs) =
     (if x = c then [] # split c xs
      else (case split c xs of [] \<Rightarrow> [[x]] | w # ws \<Rightarrow> (x # w) # ws))"

text \<open>\<open>s.replace(/a/g, 'b')\<close> for single characters.\<close>

definition replace :: "char \<Rightarrow> char \<Rightarrow> string \<Rightarrow> string" where
  "replace a b s = map (\<lambda>x. if x = a then b else x) s"

text \<open>
  \<open>decodeJwt\<close>: the second segment of the token, URL-safe characters replaced, through
  \<open>atob\<close> and \<open>JSON.parse\<close>. A missing second segment makes \<open>payload.replace\<close> throw; every
  exception is caught and \<open>null\<close> returned.
\<close>

definition decodeJwt :: "platform \<Rightarrow> string \<Rightarrow> json" where
  "decodeJwt pf token =
     (case split CHR ''.'' token of
        _ # payload # _ \<Rightarrow>
          (case atob pf (replace CHR ''_'' CHR ''/'' (replace CHR ''-'' CHR ''+'' payload)) of
             None \<Rightarrow> JNull
           | Some s \<Rightarrow> (case JSON_parse pf s of None \<Rightarrow> JNull | Some v \<Rightarrow> v))
      | _ \<Rightarrow> JNull)"

subsection \<open>Replies of the collaborators\<close>

text \<open>
  The asynchronous functions of the hook are modelled as run to their end, the replies of
  the collaborators they await being arguments. A refresh whose reply is not among the
  arguments has been started and stays in flight. What other events do between an
  \<open>await\<close> and its continuation is not modelled.
\<close>

datatype 'a promise = Rejected | Resolved 'a

text \<open>\<open>ApiResponse<T>\<close> of lib/api: \<open>{ data, error }\<close>.\<close>

record 'a ApiResponse =
  data :: "'a option"
  error :: "string option"

text \<open>The payload of \<open>apiLogin\<close> as far as \<open>signIn\<close> reads it.\<close>

record LoginData =
  ld_access_token :: "string option"
  ld_user :: "FlaskUser option"

text \<open>
  What \<open>supabase.auth.refreshSession()\<close> resolves to: \<open>{ data: { session }, error }\<close>; the
  error is an object, truthy whenever present.
\<close>

record RefreshResponse =
  rs_session :: "Session option"
  rs_error :: "string option"

text \<open>
  One run of \<open>refreshAccessToken\<close> awaits \<open>refreshSession\<close> and then \<open>getMyProfile\<close>;
  \<open>at\<close> is the clock (\<open>Date.now()\<close>) when the caller continues after it.
\<close>

record round =
  refreshed :: "RefreshResponse promise"
  profile :: "FlaskUser ApiResponse promise"
  at :: int

subsection \<open>State\<close>

text \<open>A pending timeout of the runtime: its handle, the delay passed to \<open>setTimeout\<close>, and
  the render whose closure the callback is.\<close>

record timer =
  tid :: nat
  delay :: int
  owner :: nat

text \<open>
  \<^item> \<open>localStorage\<close>: the slot \<open>flask_access_token\<close>.
  \<^item> \<open>authState\<close>: the \<open>useState\<close> cell.
  \<^item> \<open>render\<close>: the number of the latest render of the component. \<open>useAuth\<close> is the body
    of a hook: React runs it again after every \<open>setAuthState\<close>, and each run executes
    \<open>let refreshTimer = null\<close> (line 51) anew. So every render has a variable
    \<open>refreshTimer\<close> of its own, shared by the closures (\<open>signIn\<close>, \<open>signOut\<close>,
    \<open>checkAndScheduleRefresh\<close>) created in that render: \<open>refreshTimer st c\<close> is the
    variable of render \<open>c\<close>. The effect has the dependency list \<open>[]\<close>, so
    \<open>checkLocalSession\<close> and the cleanup are the closures of render \<open>0\<close>.
  \<^item> \<open>timers\<close>: the timeouts pending in the runtime; \<open>nextTimerId\<close>: the next handle
    (handles are positive, hence truthy).
  \<^item> \<open>refreshCalls\<close>, \<open>validated\<close>, \<open>issued\<close> are history variables, not in the source:
    the number of calls of \<open>supabase.auth.refreshSession\<close> so far, the tokens with which
    \<open>getMyProfile\<close> has succeeded, and the tokens \<open>apiLogin\<close> has returned.
\<close>

record state =
  localStorage :: "string option"
  authState :: AuthState
  render :: nat
  refreshTimer :: "nat \<Rightarrow> nat option"
  timers :: "timer list"
  nextTimerId :: nat
  refreshCalls :: nat
  validated :: "string list"
  issued :: "string list"

definition setAuthState :: "AuthState \<Rightarrow> state \<Rightarrow> state" where
  "setAuthState a st = st\<lparr>authState := a, render := Suc (render st)\<rparr>"

text \<open>\<open>clearInterval\<close> and \<open>clearTimeout\<close> share one pool of handles.\<close>

definition clearInterval :: "nat \<Rightarrow> state \<Rightarrow> state" where
  "clearInterval h st = st\<lparr>timers := filter (\<lambda>t. tid t \<noteq> h) (timers st)\<rparr>"

text \<open>
  \<open>if (refreshTimer) { clearInterval(refreshTimer); refreshTimer = null; }\<close>, in the
  closure of render \<open>c\<close>.
\<close>

definition clearRefreshTimer :: "nat \<Rightarrow> state \<Rightarrow> state" where
  "clearRefreshTimer c st =
     (case refreshTimer st c of
        None \<Rightarrow> st
      | Some h \<Rightarrow> (clearInterval h st)\<lparr>refreshTimer := (refreshTimer st)(c := None)\<rparr>)"

text \<open>\<open>refreshTimer = setTimeout(callback, d)\<close>, in the closure of render \<open>c\<close>.\<close>

definition setTimeout :: "nat \<Rightarrow> int \<Rightarrow> state \<Rightarrow> state" where
  "setTimeout c d st =
     st\<lparr>timers := timers st @ [\<lparr>tid = nextTimerId st, delay = d, owner = c\<rparr>],
        nextTimerId := Suc (nextTimerId st),
        refreshTimer := (refreshTimer st)(c \<mapsto> nextTimerId st)\<rparr>"

text \<open>The \<open>catch\<close> block of \<open>refreshAccessToken\<close>, also the tail of \<open>checkLocalSession\<close>
  and the expired branch of \<open>checkAndScheduleRefresh\<close>.\<close>

definition logOut :: "state \<Rightarrow> state" where
  "logOut st = setAuthState signedOut (st\<lparr>localStorage := None\<rparr>)"

subsection \<open>refreshAccessToken\<close>

text \<open>The access token of a reply of \<open>refreshSession\<close> that does not make the code throw.\<close>

definition refreshedToken :: "RefreshResponse promise \<Rightarrow> string option" where
  "refreshedToken p =
     (case p of
        Rejected \<Rightarrow> None
      | Resolved r \<Rightarrow>
          if rs_error r \<noteq> None \<or> rs_session r = None
             \<or> access_token (the (rs_session r)) = []
          then None
          else Some (access_token (the (rs_session r))))"

text \<open>
  The result is the returned boolean and the state. Every \<open>throw\<close> and every rejected
  promise of the \<open>try\<close> block ends in the \<open>catch\<close>, which is \<open>logOut\<close> and \<open>false\<close>.
\<close>

definition refreshAccessToken :: "round \<Rightarrow> state \<Rightarrow> bool \<times> state" where
  "refreshAccessToken r st =
     (let st1 = st\<lparr>refreshCalls := Suc (refreshCalls st)\<rparr> in
      case refreshedToken (refreshed r) of
        None \<Rightarrow> (False, logOut st1)
      | Some tok \<Rightarrow>
          (let st2 = st1\<lparr>localStorage := Some tok\<rparr> in
           case profile r of
             Rejected \<Rightarrow> (False, logOut st2)
           | Resolved p \<Rightarrow>
               if truthy_str (error p) \<or> data p = None then (False, logOut st2)
               else
                 (let profileData = the (data p) in
                  (True,
                   setAuthState
                     ((authState st2)\<lparr>user := Some profileData,
                        session := Some (Session tok),
                        role := Some (role_u profileData),
                        loading := False\<rparr>)
                     (st2\<lparr>validated := tok # validated st2\<rparr>)))))"

text \<open>The call has been made and its reply is still awaited.\<close>

definition refreshInFlight :: "state \<Rightarrow> state" where
  "refreshInFlight st = st\<lparr>refreshCalls := Suc (refreshCalls st)\<rparr>"

subsection \<open>checkAndScheduleRefresh\<close>

definition REFRESH_BUFFER :: int where
  "REFRESH_BUFFER = 5 * 60 * 1000"

text \<open>
  \<open>checkAndScheduleRefresh\<close> in the closure of render \<open>c\<close>, at clock \<open>now\<close>. The list holds
  the replies to the refreshes that the call starts, in order; when it is used up, the
  refresh just started stays in flight.
\<close>

fun checkAndScheduleRefresh ::
  "platform \<Rightarrow> nat \<Rightarrow> string option \<Rightarrow> int \<Rightarrow> round list \<Rightarrow> state \<Rightarrow> state" where
  "checkAndScheduleRefresh pf c initialToken now rounds st =
     (let st1 = clearRefreshTimer c st;
          currentToken = (if truthy_str initialToken then initialToken else localStorage st1)
      in
      if \<not> truthy_str currentToken then st1
      else
        let decoded = decodeJwt pf (the currentToken) in
        if \<not> truthy decoded then st1
        else
          case property decoded ''exp'' of
            None \<Rightarrow> st1
          | Some exp \<Rightarrow>
              if \<not> truthy exp then st1
              else
                let expiresInMs = map_option (\<lambda>n. n * 1000 - now) (to_number pf exp);
                    isExpired = (case expiresInMs of None \<Rightarrow> False | Some x \<Rightarrow> x \<le> 0)
                in
                if isExpired then logOut st1
                else if (case expiresInMs of None \<Rightarrow> False | Some x \<Rightarrow> x > REFRESH_BUFFER)
                then setTimeout c (the expiresInMs - REFRESH_BUFFER) st1
                else
                  (case rounds of
                     [] \<Rightarrow> refreshInFlight st1
                   | r # rs \<Rightarrow>
                       (case refreshAccessToken r st1 of
                          (success, st2) \<Rightarrow>
                            if success
                            then checkAndScheduleRefresh pf c (localStorage st2) (at r) rs st2
                            else st2)))"

declare checkAndScheduleRefresh.simps [simp del]


subsection \<open>The callback of the refresh timer\<close>

text \<open>
  The timeout with handle \<open>h\<close> fires: the runtime takes it from the pending ones (it is
  single-shot) and runs the callback, which is a closure of the render that armed it. The
  variable \<open>refreshTimer\<close> of that render keeps the spent handle.
\<close>

definition timerFires :: "platform \<Rightarrow> nat \<Rightarrow> round list \<Rightarrow> state \<Rightarrow> state" where
  "timerFires pf h rounds st =
     (case find (\<lambda>t. tid t = h) (timers st) of
        None \<Rightarrow> st
      | Some t \<Rightarrow>
          (let st1 = st\<lparr>timers := filter (\<lambda>t. tid t \<noteq> h) (timers st)\<rparr> in
           case rounds of
             [] \<Rightarrow> refreshInFlight st1
           | r # rs \<Rightarrow>
               (case refreshAccessToken r st1 of
                  (success, st2) \<Rightarrow>
                    if success
                    then checkAndScheduleRefresh pf (owner t) (localStorage st2) (at r) rs st2
                    else st2)))"

subsection \<open>The effect: checkLocalSession and the cleanup\<close>

text \<open>
  \<open>reply\<close> is what the first \<open>getMyProfile()\<close> settles to, \<open>now\<close> the clock when
  \<open>checkAndScheduleRefresh(token)\<close> runs after it, \<open>rounds\<close> the replies to the refreshes.
\<close>

definition checkLocalSession ::
  "platform \<Rightarrow> FlaskUser ApiResponse promise \<Rightarrow> int \<Rightarrow> round list \<Rightarrow> state \<Rightarrow> state" where
  "checkLocalSession pf reply now rounds st =
     (let st1 = setAuthState ((authState st)\<lparr>loading := True\<rparr>) st;
          token = localStorage st1
      in
      if truthy_str token then
        (case reply of
           Rejected \<Rightarrow> logOut st1
         | Resolved p \<Rightarrow>
             (case data p of
                Some profileData \<Rightarrow>
                  checkAndScheduleRefresh pf 0 token now rounds
                    (setAuthState
                       \<lparr>user = Some profileData,
                        session = Some (Session (the token)),
                        role = Some (role_u profileData),
                        loading = False\<rparr>
                       (st1\<lparr>validated := the token # validated st1\<rparr>))
              | None \<Rightarrow>
                  if truthy_str (error p) then
                    (case rounds of
                       [] \<Rightarrow> refreshInFlight st1
                     | r # rs \<Rightarrow>
                         (case refreshAccessToken r st1 of
                            (success, st2) \<Rightarrow>
                              if success
                              then checkAndScheduleRefresh pf 0 (localStorage st2) (at r) rs st2
                              else logOut st2))
                  else logOut st1))
      else logOut st1)"

definition cleanup :: "state \<Rightarrow> state" where
  "cleanup st = clearRefreshTimer 0 st"

subsection \<open>signIn and signOut\<close>

record SignInResult =
  res_user :: "FlaskUser option"
  res_error :: "string option"

text \<open>\<open>signIn\<close> as the closure of render \<open>c\<close>; \<open>reply\<close> is what \<open>apiLogin\<close> resolves to.\<close>

definition signIn ::
  "platform \<Rightarrow> nat \<Rightarrow> LoginData ApiResponse \<Rightarrow> int \<Rightarrow> round list \<Rightarrow> state
     \<Rightarrow> SignInResult \<times> state" where
  "signIn pf c reply now rounds st =
     (if truthy_str (error reply) then (\<lparr>res_user = None, res_error = error reply\<rparr>, st)
      else if data reply \<noteq> None \<and> truthy_str (ld_access_token (the (data reply)))
                \<and> ld_user (the (data reply)) \<noteq> None
      then
        (let tok = the (ld_access_token (the (data reply)));
             flaskUser = the (ld_user (the (data reply)));
             st1 = st\<lparr>localStorage := Some tok, issued := tok # issued st\<rparr>;
             st2 = setAuthState
                     \<lparr>user = Some flaskUser, session = Some (Session tok),
                      role = Some (role_u flaskUser), loading = False\<rparr> st1;
             st3 = checkAndScheduleRefresh pf c (Some tok) now rounds st2
         in (\<lparr>res_user = Some flaskUser, res_error = None\<rparr>, st3))
      else
        (\<lparr>res_user = None,
          res_error = Some ''Login failed: Server response missing token or user data.''\<rparr>,
         st))"

text \<open>\<open>signOut\<close> as the closure of render \<open>c\<close>; it returns \<open>{ error: null }\<close>.\<close>

definition signOut :: "nat \<Rightarrow> state \<Rightarrow> string option \<times> state" where
  "signOut c st =
     (None, setAuthState signedOut (clearRefreshTimer c (st\<lparr>localStorage := None\<rparr>)))"

subsection \<open>The component over time\<close>

text \<open>The component at its first render, with whatever the storage slot holds.\<close>

definition initial :: "string option \<Rightarrow> state" where
  "initial stored =
     \<lparr>localStorage = stored, authState = initialAuthState, render = 0,
      refreshTimer = (\<lambda>_. None), timers = [], nextTimerId = 1, refreshCalls = 0,
      validated = [], issued = []\<rparr>"

text \<open>Bootstrap: the effect runs once after the first render.\<close>

definition bootstrap ::
  "platform \<Rightarrow> string option \<Rightarrow> FlaskUser ApiResponse promise \<Rightarrow> int \<Rightarrow> round list
     \<Rightarrow> state" where
  "bootstrap pf stored reply now rounds = checkLocalSession pf reply now rounds (initial stored)"

text \<open>
  What happens to the mounted component afterwards. The user interface calls the
  \<open>signIn\<close> and \<open>signOut\<close> that the latest render returned; a timer runs the closure that
  armed it; unmounting runs the cleanup of the effect.
\<close>

datatype op =
  SignIn "LoginData ApiResponse" int "round list"
  | SignOut
  | TimerFires nat "round list"
  | Unmount

fun exec :: "platform \<Rightarrow> op \<Rightarrow> state \<Rightarrow> state" where
  "exec pf (SignIn reply now rounds) st = snd (signIn pf (render st) reply now rounds st)"
| "exec pf SignOut st = snd (signOut (render st) st)"
| "exec pf (TimerFires h rounds) st = timerFires pf h rounds st"
| "exec pf Unmount st = cleanup st"

definition run :: "platform \<Rightarrow> op list \<Rightarrow> state \<Rightarrow> state" where
  "run pf ops st = fold (exec pf) ops st"

subsection \<open>Notions used in the statements\<close>

text \<open>The replies of a round on which \<open>refreshAccessToken\<close> returns \<open>true\<close>.\<close>

definition refreshSucceeds :: "round \<Rightarrow> bool" where
  "refreshSucceeds r =
     (refreshedToken (refreshed r) \<noteq> None \<and>
      (case profile r of
         Rejected \<Rightarrow> False
       | Resolved p \<Rightarrow> \<not> truthy_str (error p) \<and> data p \<noteq> None))"

text \<open>
  What a failed refresh leaves behind, \<open>st\<close> being the state before it: the signed-out
  state, an empty storage slot, and one call of \<open>refreshSession\<close> more.
\<close>

definition terminalFailure :: "state \<Rightarrow> state \<Rightarrow> bool" where
  "terminalFailure st st' =
     (authState st' = signedOut \<and> localStorage st' = None
      \<and> refreshCalls st' = Suc (refreshCalls st))"

text \<open>The first profile fetch of \<open>checkLocalSession\<close> takes the branch that refreshes.\<close>

definition reactiveRefresh :: "FlaskUser ApiResponse promise \<Rightarrow> bool" where
  "reactiveRefresh reply =
     (case reply of Rejected \<Rightarrow> False | Resolved p \<Rightarrow> data p = None \<and> truthy_str (error p))"

text \<open>\<open>apiLogin\<close> returned an error, or a payload without token or without user.\<close>

definition loginFailed :: "LoginData ApiResponse \<Rightarrow> bool" where
  "loginFailed reply =
     (truthy_str (error reply) \<or>
      (case data reply of
         None \<Rightarrow> True
       | Some d \<Rightarrow> \<not> truthy_str (ld_access_token d) \<or> ld_user d = None))"

text \<open>The token has no second segment, or \<open>atob\<close> or \<open>JSON.parse\<close> throws on it.\<close>

definition undecodable :: "platform \<Rightarrow> string \<Rightarrow> bool" where
  "undecodable pf token =
     (case split CHR ''.'' token of
        _ # payload # _ \<Rightarrow>
          (case atob pf (replace CHR ''_'' CHR ''/'' (replace CHR ''-'' CHR ''+'' payload)) of
             None \<Rightarrow> True
           | Some s \<Rightarrow> JSON_parse pf s = None)
      | _ \<Rightarrow> True)"


text \<open>
  The discipline that clearing before arming keeps: every pending timeout has a handle
  below the next one and is the one held by the variable \<open>refreshTimer\<close> of the render that
  armed it, and no handle is pending twice.
\<close>

definition timerDiscipline :: "state \<Rightarrow> bool" where
  "timerDiscipline st =
     ((\<forall>t \<in> set (timers st). tid t < nextTimerId st \<and> refreshTimer st (owner t) = Some (tid t))
      \<and> distinct (map tid (timers st)))"

subsection \<open>Example data\<close>

text \<open>
  \<open>atob\<close> and \<open>JSON.parse\<close> at the payload segments of the example tokens below (their
  true values there), and a clock reading of 2023-11-14T22:13:20Z. The tokens expire one
  hour after the clock, one minute after it, 1000 seconds before it, and never (no
  \<open>exp\<close>).
\<close>

definition samplePlatform :: platform where
  \<open>samplePlatform =
     \<lparr>atob = (\<lambda>s.
         if s = ''eyJleHAiOjE3MDAwMDM2MDB9'' then Some ''{"exp":1700003600}''
         else if s = ''eyJleHAiOjE3MDAwMDAwNjB9'' then Some ''{"exp":1700000060}''
         else if s = ''eyJleHAiOjE2OTk5OTkwMDB9'' then Some ''{"exp":1699999000}''
         else if s = ''eyJzdWIiOiJ1MSJ9'' then Some ''{"sub":"u1"}''
         else None),
      JSON_parse = (\<lambda>s.
         if s = ''{"exp":1700003600}'' then Some (JObject [(''exp'', JNumber 1700003600)])
         else if s = ''{"exp":1700000060}'' then Some (JObject [(''exp'', JNumber 1700000060)])
         else if s = ''{"exp":1699999000}'' then Some (JObject [(''exp'', JNumber 1699999000)])
         else if s = ''{"sub":"u1"}'' then Some (JObject [(''sub'', JString ''u1'')])
         else None),
      ToNumber = (\<lambda>_. None)\<rparr>\<close>

definition tokenHour :: string where
  "tokenHour = ''eyJhbGciOiJIUzI1NiJ9.eyJleHAiOjE3MDAwMDM2MDB9.c2ln''"

definition tokenMinute :: string where
  "tokenMinute = ''eyJhbGciOiJIUzI1NiJ9.eyJleHAiOjE3MDAwMDAwNjB9.c2ln''"

definition tokenExpired :: string where
  "tokenExpired = ''eyJhbGciOiJIUzI1NiJ9.eyJleHAiOjE2OTk5OTkwMDB9.c2ln''"

definition tokenNoExp :: string where
  "tokenNoExp = ''eyJhbGciOiJIUzI1NiJ9.eyJzdWIiOiJ1MSJ9.c2ln''"

definition clock :: int where
  "clock = 1700000000000"

definition alice :: FlaskUser where
  "alice = \<lparr>id_u = ''u1'', name_u = None, first_name = ''Alice'', last_name = ''Liddell'',
     email = ''alice@example.org'', role_u = candidate\<rparr>"

definition profileOk :: "FlaskUser ApiResponse promise" where
  "profileOk = Resolved \<lparr>data = Some alice, error = None\<rparr>"

definition profileRejected :: "FlaskUser ApiResponse promise" where
  "profileRejected = Resolved \<lparr>data = None, error = Some ''Token has expired''\<rparr>"

definition loginOk :: "string \<Rightarrow> LoginData ApiResponse" where
  "loginOk tok = \<lparr>data = Some \<lparr>ld_access_token = Some tok, ld_user = Some alice\<rparr>, error = None\<rparr>"

definition refreshOk :: "string \<Rightarrow> round" where
  "refreshOk tok =
     \<lparr>refreshed = Resolved \<lparr>rs_session = Some (Session tok), rs_error = None\<rparr>,
      profile = profileOk, at = clock\<rparr>"

definition refreshDenied :: round where
  "refreshDenied =
     \<lparr>refreshed = Resolved \<lparr>rs_session = None, rs_error = Some ''Invalid Refresh Token''\<rparr>,
      profile = profileRejected, at = clock\<rparr>"


text \<open>
  Two states of the mounted component: after a bootstrap with \<open>tokenHour\<close> in the slot and
  a profile fetch that succeeds, and after a bootstrap with an empty slot.
\<close>

definition sampleSession :: state where
  "sampleSession = bootstrap samplePlatform (Some tokenHour) profileOk clock []"

definition sampleAnonymous :: state where
  "sampleAnonymous = bootstrap samplePlatform None profileOk clock []"

definition loginDenied :: "LoginData ApiResponse" where
  "loginDenied = \<lparr>data = None, error = Some ''Invalid login credentials''\<rparr>"

section \<open>Properties\<close>

subsection \<open>Auxiliary facts\<close>

lemma sample_decode:
  "property (decodeJwt samplePlatform tokenHour) ''exp'' = Some (JNumber 1700003600)"
  "property (decodeJwt samplePlatform tokenMinute) ''exp'' = Some (JNumber 1700000060)"
  "property (decodeJwt samplePlatform tokenExpired) ''exp'' = Some (JNumber 1699999000)"
  "property (decodeJwt samplePlatform tokenNoExp) ''exp'' = None"
  by code_simp+

lemma sample_nonempty:
  "tokenHour \<noteq> []" "tokenMinute \<noteq> []" "tokenExpired \<noteq> []" "tokenNoExp \<noteq> []"
  by (simp_all add: tokenHour_def tokenMinute_def tokenExpired_def tokenNoExp_def)

lemma property_truthy: "property v k = Some x \<Longrightarrow> truthy v"
  by (cases v) simp_all

lemma logOut_fields [simp]:
  "authState (logOut st) = signedOut"
  "localStorage (logOut st) = None"
  "timers (logOut st) = timers st"
  "refreshCalls (logOut st) = refreshCalls st"
  "refreshTimer (logOut st) = refreshTimer st"
  "nextTimerId (logOut st) = nextTimerId st"
  "validated (logOut st) = validated st"
  "issued (logOut st) = issued st"
  by (simp_all add: logOut_def setAuthState_def)

lemma clearRefreshTimer_fields [simp]:
  "authState (clearRefreshTimer c st) = authState st"
  "localStorage (clearRefreshTimer c st) = localStorage st"
  "refreshCalls (clearRefreshTimer c st) = refreshCalls st"
  "nextTimerId (clearRefreshTimer c st) = nextTimerId st"
  "validated (clearRefreshTimer c st) = validated st"
  "issued (clearRefreshTimer c st) = issued st"
  "render (clearRefreshTimer c st) = render st"
  "refreshTimer (clearRefreshTimer c st) c = None"
  by (simp_all add: clearRefreshTimer_def clearInterval_def split: option.splits)

lemma clearRefreshTimer_fresh:
  "refreshTimer st c = None \<Longrightarrow> clearRefreshTimer c st = st"
  by (simp add: clearRefreshTimer_def)

lemma setAuthState_fields [simp]:
  "authState (setAuthState a st) = a"
  "localStorage (setAuthState a st) = localStorage st"
  "timers (setAuthState a st) = timers st"
  "refreshCalls (setAuthState a st) = refreshCalls st"
  "refreshTimer (setAuthState a st) = refreshTimer st"
  "nextTimerId (setAuthState a st) = nextTimerId st"
  "validated (setAuthState a st) = validated st"
  "issued (setAuthState a st) = issued st"
  "render (setAuthState a st) = Suc (render st)"
  by (simp_all add: setAuthState_def)

lemma setTimeout_fields [simp]:
  "authState (setTimeout c d st) = authState st"
  "localStorage (setTimeout c d st) = localStorage st"
  "timers (setTimeout c d st) = timers st @ [\<lparr>tid = nextTimerId st, delay = d, owner = c\<rparr>]"
  "refreshCalls (setTimeout c d st) = refreshCalls st"
  "nextTimerId (setTimeout c d st) = Suc (nextTimerId st)"
  "validated (setTimeout c d st) = validated st"
  "issued (setTimeout c d st) = issued st"
  by (simp_all add: setTimeout_def)

lemma refreshInFlight_fields [simp]:
  "authState (refreshInFlight st) = authState st"
  "localStorage (refreshInFlight st) = localStorage st"
  "timers (refreshInFlight st) = timers st"
  "refreshCalls (refreshInFlight st) = Suc (refreshCalls st)"
  "refreshTimer (refreshInFlight st) = refreshTimer st"
  "nextTimerId (refreshInFlight st) = nextTimerId st"
  "validated (refreshInFlight st) = validated st"
  "issued (refreshInFlight st) = issued st"
  by (simp_all add: refreshInFlight_def)

lemma initial_fields [simp]:
  "authState (initial s) = initialAuthState"
  "localStorage (initial s) = s"
  "timers (initial s) = []"
  "refreshCalls (initial s) = 0"
  "refreshTimer (initial s) c = None"
  "nextTimerId (initial s) = 1"
  "validated (initial s) = []"
  "issued (initial s) = []"
  "render (initial s) = 0"
  by (simp_all add: initial_def)

lemma refreshAccessToken_failure:
  "\<not> refreshSucceeds r \<Longrightarrow> refreshAccessToken r st = (False, logOut (refreshInFlight st))"
  by (auto simp: refreshSucceeds_def refreshAccessToken_def logOut_def refreshInFlight_def
      setAuthState_def Let_def split: option.splits promise.splits)

lemma refreshAccessToken_result: "fst (refreshAccessToken r st) = refreshSucceeds r"
  by (auto simp: refreshSucceeds_def refreshAccessToken_def Let_def
      split: option.splits promise.splits)

lemma refreshedToken_None_fails: "refreshedToken (refreshed r) = None \<Longrightarrow> \<not> refreshSucceeds r"
  by (simp add: refreshSucceeds_def)

lemma schedule_skip:
  assumes "tok \<noteq> []" and "property (decodeJwt pf tok) ''exp'' = None"
  shows "checkAndScheduleRefresh pf c (Some tok) now rounds st = clearRefreshTimer c st"
  using assms by (simp add: checkAndScheduleRefresh.simps truthy_str_def Let_def)



lemma schedule_immediate:
  assumes "tok \<noteq> []" and "property (decodeJwt pf tok) ''exp'' = Some (JNumber e)"
    and "0 \<le> now" and "0 < e * 1000 - now" and "e * 1000 - now \<le> REFRESH_BUFFER"
  shows "checkAndScheduleRefresh pf c (Some tok) now rounds st
           = (case rounds of
                [] \<Rightarrow> refreshInFlight (clearRefreshTimer c st)
              | r # rs \<Rightarrow>
                  (case refreshAccessToken r (clearRefreshTimer c st) of
                     (success, st2) \<Rightarrow>
                       if success
                       then checkAndScheduleRefresh pf c (localStorage st2) (at r) rs st2
                       else st2))"
proof -
  have "e \<noteq> 0" using assms(3,4) by auto
  then show ?thesis
    using assms property_truthy [OF assms(2)]
    by (simp add: checkAndScheduleRefresh.simps truthy_str_def Let_def)
qed

text \<open>
  A property of the state that every step of \<open>checkAndScheduleRefresh\<close> keeps is kept by
  the whole call, however many refreshes it chains.
\<close>

lemma checkAndScheduleRefresh_preserves:
  assumes clear: "\<And>c st. P st \<Longrightarrow> P (clearRefreshTimer c st)"
    and out: "\<And>st. P st \<Longrightarrow> P (logOut st)"
    and arm: "\<And>c d st. P st \<Longrightarrow> P (setTimeout c d (clearRefreshTimer c st))"
    and flight: "\<And>st. P st \<Longrightarrow> P (refreshInFlight st)"
    and refresh: "\<And>r st. P st \<Longrightarrow> P (snd (refreshAccessToken r st))"
  shows "P st \<Longrightarrow> P (checkAndScheduleRefresh pf c t now rounds st)"
proof (induction rounds arbitrary: st t now)
  case Nil
  then show ?case
    by (subst checkAndScheduleRefresh.simps)
      (simp add: Let_def clear out arm flight split: option.splits)
next
  case (Cons r rs)
  have st1: "P (clearRefreshTimer c st)" using Cons.prems by (rule clear)
  have step: "P (case refreshAccessToken r (clearRefreshTimer c st) of
                  (success, st2) \<Rightarrow>
                     if success then checkAndScheduleRefresh pf c (localStorage st2) (at r) rs st2
                     else st2)"
  proof (cases "refreshAccessToken r (clearRefreshTimer c st)")
    case (Pair success st2)
    have "P st2" using refresh [OF st1, of r] Pair by simp
    then show ?thesis using Pair Cons.IH by simp
  qed
  show ?case
    by (subst checkAndScheduleRefresh.simps)
      (simp add: Let_def st1 out arm [OF Cons.prems] step split: option.splits)
qed

lemma refreshAccessToken_calls:
  "refreshCalls (snd (refreshAccessToken r st)) = Suc (refreshCalls st)"
  by (simp add: refreshAccessToken_def Let_def split: option.splits promise.splits)

lemma refreshCalls_mono:
  "n \<le> refreshCalls st \<Longrightarrow> n \<le> refreshCalls (checkAndScheduleRefresh pf c t now rounds st)"
  by (rule checkAndScheduleRefresh_preserves [where P = "\<lambda>s. n \<le> refreshCalls s"])
    (simp_all add: refreshAccessToken_calls)


lemma sampleSession_timers:
  "timers sampleSession = [\<lparr>tid = 1, delay = 3300000, owner = 0\<rparr>]"
  by code_simp

lemma sampleAnonymous_fields:
  "timers sampleAnonymous = []" "nextTimerId sampleAnonymous = 1" "render sampleAnonymous = 2"
  "refreshTimer sampleAnonymous 2 = None" "authState sampleAnonymous = signedOut"
  "localStorage sampleAnonymous = None"
  by code_simp+

subsection \<open>Bootstrap with a token that is valid for longer than the margin\<close>




subsection \<open>A refresh that fails\<close>

text \<open>
  C2. When \<open>refreshSession\<close> fails (it rejects, reports an error, or returns no session or
  no access token), \<open>refreshAccessToken\<close> returns \<open>false\<close> and leaves, from any state, the
  signed-out state and an empty storage slot. None of its three callers tries again: after
  the timer callback, after the immediate refresh of the scheduling step and after the
  refresh of the bootstrap, \<open>refreshSession\<close> has been called exactly once more, although
  further replies were available.
\<close>

theorem refresh_failure_is_terminal:
  assumes "refreshedToken (refreshed r) = None"
  shows "\<not> fst (refreshAccessToken r st)
         \<and> terminalFailure st (snd (refreshAccessToken r st))
         \<and> (find (\<lambda>t. tid t = h) (timers st) \<noteq> None
              \<longrightarrow> terminalFailure st (timerFires pf h (r # rs) st))
         \<and> (tok \<noteq> [] \<and> property (decodeJwt pf tok) ''exp'' = Some (JNumber e) \<and> 0 \<le> now
              \<and> 0 < e * 1000 - now \<and> e * 1000 - now \<le> REFRESH_BUFFER
              \<longrightarrow> terminalFailure st (checkAndScheduleRefresh pf c (Some tok) now (r # rs) st))
         \<and> (tok \<noteq> [] \<and> reactiveRefresh reply
              \<longrightarrow> terminalFailure (initial (Some tok))
                     (bootstrap pf (Some tok) reply now (r # rs)))"
proof -
  have fail: "\<And>s. refreshAccessToken r s = (False, logOut (refreshInFlight s))"
    using assms by (simp add: refreshAccessToken_failure refreshedToken_None_fails)
  have a: "\<not> fst (refreshAccessToken r st)" by (simp add: fail)
  have b: "terminalFailure st (snd (refreshAccessToken r st))"
    by (simp add: fail terminalFailure_def)
  have c: "terminalFailure st (timerFires pf h (r # rs) st)"
    if "find (\<lambda>t. tid t = h) (timers st) \<noteq> None"
    using that by (auto simp: timerFires_def fail terminalFailure_def Let_def)
  have d: "terminalFailure st (checkAndScheduleRefresh pf c (Some tok) now (r # rs) st)"
    if "tok \<noteq> []" "property (decodeJwt pf tok) ''exp'' = Some (JNumber e)" "0 \<le> now"
       "0 < e * 1000 - now" "e * 1000 - now \<le> REFRESH_BUFFER"
    by (simp add: schedule_immediate [OF that] fail terminalFailure_def)
  have e: "terminalFailure (initial (Some tok)) (bootstrap pf (Some tok) reply now (r # rs))"
    if "tok \<noteq> []" "reactiveRefresh reply"
    using that
    by (auto simp: bootstrap_def checkLocalSession_def reactiveRefresh_def truthy_str_def
        fail terminalFailure_def Let_def split: promise.splits)
  show ?thesis using a b c d e by blast
qed

theorem refresh_failure_is_terminal_witness:
  "refreshedToken (refreshed refreshDenied) = None
   \<and> find (\<lambda>t. tid t = 1) (timers sampleSession) \<noteq> None
   \<and> tokenMinute \<noteq> []
   \<and> property (decodeJwt samplePlatform tokenMinute) ''exp'' = Some (JNumber 1700000060)
   \<and> 0 \<le> clock \<and> 0 < 1700000060 * 1000 - clock
   \<and> 1700000060 * 1000 - clock \<le> REFRESH_BUFFER
   \<and> reactiveRefresh profileRejected
   \<and> \<not> fst (refreshAccessToken refreshDenied sampleSession)
   \<and> terminalFailure sampleSession (snd (refreshAccessToken refreshDenied sampleSession))
   \<and> terminalFailure sampleSession
        (timerFires samplePlatform 1 [refreshDenied, refreshOk tokenHour] sampleSession)
   \<and> terminalFailure sampleSession
        (checkAndScheduleRefresh samplePlatform 0 (Some tokenMinute) clock
           [refreshDenied, refreshOk tokenHour] sampleSession)
   \<and> terminalFailure (initial (Some tokenMinute))
        (bootstrap samplePlatform (Some tokenMinute) profileRejected clock
           [refreshDenied, refreshOk tokenHour])"
proof -
  have a: "refreshedToken (refreshed refreshDenied) = None"
    by (simp add: refreshDenied_def refreshedToken_def)
  have b: "find (\<lambda>t. tid t = 1) (timers sampleSession) \<noteq> None"
    by (simp add: sampleSession_timers)
  have c: "0 \<le> clock \<and> 0 < 1700000060 * 1000 - clock
           \<and> 1700000060 * 1000 - clock \<le> REFRESH_BUFFER"
    by (simp add: clock_def REFRESH_BUFFER_def)
  have d: "reactiveRefresh profileRejected"
    by (simp add: reactiveRefresh_def profileRejected_def truthy_str_def)
  show ?thesis
    using refresh_failure_is_terminal [OF a, where h = 1 and st = sampleSession
        and pf = samplePlatform and rs = "[refreshOk tokenHour]" and tok = tokenMinute
        and e = 1700000060 and now = clock and c = 0 and reply = profileRejected]
      a b c d sample_decode(2) sample_nonempty(2)
    by simp
qed

subsection \<open>Bootstrap with an expired token\<close>




subsection \<open>The timer is cancelled only within one render\<close>

lemma timerDiscipline_clear: "timerDiscipline st \<Longrightarrow> timerDiscipline (clearRefreshTimer c st)"
  by (auto simp: timerDiscipline_def clearRefreshTimer_def clearInterval_def distinct_map_filter
      split: option.splits)

lemma clear_no_own:
  "timerDiscipline st \<Longrightarrow> t \<in> set (timers (clearRefreshTimer c st)) \<Longrightarrow> owner t \<noteq> c"
  by (auto simp: timerDiscipline_def clearRefreshTimer_def clearInterval_def split: option.splits)

lemma timerDiscipline_arm:
  assumes "timerDiscipline st"
  shows "timerDiscipline (setTimeout c d (clearRefreshTimer c st))"
proof -
  have inv: "timerDiscipline (clearRefreshTimer c st)" using assms by (rule timerDiscipline_clear)
  have own: "\<And>t. t \<in> set (timers (clearRefreshTimer c st)) \<Longrightarrow> owner t \<noteq> c"
    using assms by (rule clear_no_own)
  show ?thesis
    using inv own unfolding timerDiscipline_def setTimeout_def
    by (auto simp: less_Suc_eq)
qed

lemma timerDiscipline_refresh:
  "timerDiscipline st \<Longrightarrow> timerDiscipline (snd (refreshAccessToken r st))"
  by (simp add: timerDiscipline_def refreshAccessToken_def Let_def logOut_def setAuthState_def
      split: option.splits promise.splits)

lemma timerDiscipline_schedule:
  "timerDiscipline st \<Longrightarrow> timerDiscipline (checkAndScheduleRefresh pf c t now rounds st)"
  by (rule checkAndScheduleRefresh_preserves [where P = timerDiscipline])
    (simp_all add: timerDiscipline_clear timerDiscipline_arm timerDiscipline_refresh,
     simp_all add: timerDiscipline_def)

lemma timerDiscipline_one:
  assumes "timerDiscipline st"
  shows "length (filter (\<lambda>t. owner t = c) (timers st)) \<le> 1"
proof -
  let ?own = "filter (\<lambda>t. owner t = c) (timers st)"
  have d: "distinct (map tid ?own)"
    using assms by (simp add: timerDiscipline_def distinct_map_filter)
  have same: "\<And>t. t \<in> set ?own \<Longrightarrow> Some (tid t) = refreshTimer st c"
    using assms by (auto simp: timerDiscipline_def)
  show ?thesis
  proof (cases ?own)
    case Nil
    then show ?thesis by simp
  next
    case (Cons x xs)
    show ?thesis
    proof (cases xs)
      case Nil
      with Cons show ?thesis by simp
    next
      case (Cons y ys)
      with \<open>?own = x # xs\<close> have "tid x = tid y"
        using same [of x] same [of y] by (metis list.set_intros option.inject)
      with d Cons \<open>?own = x # xs\<close> show ?thesis by simp
    qed
  qed
qed


lemma timerDiscipline_after_refresh:
  assumes "timerDiscipline st"
  shows "timerDiscipline
           (case refreshAccessToken r st of
              (success, st2) \<Rightarrow>
                if success then checkAndScheduleRefresh pf c (localStorage st2) (at r) rs st2
                else st2)"
proof (cases "refreshAccessToken r st")
  case (Pair success st2)
  have "timerDiscipline st2" using timerDiscipline_refresh [OF assms, of r] Pair by simp
  then show ?thesis using Pair by (simp add: timerDiscipline_schedule)
qed

lemma timerDiscipline_timerFires:
  assumes "timerDiscipline st"
  shows "timerDiscipline (timerFires pf h rounds st)"
proof -
  define st1 where "st1 = st\<lparr>timers := filter (\<lambda>t. tid t \<noteq> h) (timers st)\<rparr>"
  have st1: "timerDiscipline st1"
    using assms by (auto simp: st1_def timerDiscipline_def distinct_map_filter)
  then have "timerDiscipline (refreshInFlight st1)" by (simp add: timerDiscipline_def)
  with assms st1 show ?thesis
    unfolding timerFires_def Let_def st1_def [symmetric]
    by (simp add: timerDiscipline_after_refresh split: option.splits list.splits)
qed

lemma timerDiscipline_setAuthState:
  "timerDiscipline (setAuthState a st) = timerDiscipline st"
  by (simp add: timerDiscipline_def)

lemma timerDiscipline_signIn:
  assumes "timerDiscipline st"
  shows "timerDiscipline (snd (signIn pf c reply now rounds st))"
proof -
  have "timerDiscipline (st\<lparr>localStorage := l, issued := i\<rparr>)" for l i
    using assms by (simp add: timerDiscipline_def)
  with assms show ?thesis
    by (simp add: signIn_def Let_def timerDiscipline_schedule timerDiscipline_setAuthState)
qed

lemma timerDiscipline_signOut:
  assumes "timerDiscipline st"
  shows "timerDiscipline (snd (signOut c st))"
proof -
  have "timerDiscipline (st\<lparr>localStorage := None\<rparr>)"
    using assms by (simp add: timerDiscipline_def)
  then show ?thesis
    by (simp add: signOut_def timerDiscipline_setAuthState timerDiscipline_clear)
qed

lemma timerDiscipline_exec: "timerDiscipline st \<Longrightarrow> timerDiscipline (exec pf x st)"
  by (cases x)
    (simp_all add: timerDiscipline_signIn timerDiscipline_signOut timerDiscipline_timerFires
      cleanup_def timerDiscipline_clear)

lemma timerDiscipline_run: "timerDiscipline st \<Longrightarrow> timerDiscipline (run pf ops st)"
  unfolding run_def by (induction ops arbitrary: st) (simp_all add: timerDiscipline_exec)

lemma timerDiscipline_checkLocalSession:
  assumes "timerDiscipline st"
  shows "timerDiscipline (checkLocalSession pf reply now rounds st)"
proof -
  define st1 where "st1 = setAuthState ((authState st)\<lparr>loading := True\<rparr>) st"
  have st1: "timerDiscipline st1" using assms by (simp add: st1_def timerDiscipline_setAuthState)
  then have flight: "timerDiscipline (refreshInFlight st1)" by (simp add: timerDiscipline_def)
  have out: "timerDiscipline (logOut s)" if "timerDiscipline s" for s
    using that by (simp add: timerDiscipline_def)
  have ok: "timerDiscipline (st1\<lparr>validated := v\<rparr>)" for v
    using st1 by (simp add: timerDiscipline_def)
  have re: "timerDiscipline
           (case refreshAccessToken r st1 of
              (success, st2) \<Rightarrow>
                if success then checkAndScheduleRefresh pf 0 (localStorage st2) (at r) rs st2
                else logOut st2)" for r rs
  proof (cases "refreshAccessToken r st1")
    case (Pair success st2)
    have "timerDiscipline st2" using timerDiscipline_refresh [OF st1, of r] Pair by simp
    then show ?thesis using Pair by (simp add: timerDiscipline_schedule out)
  qed
  show ?thesis
    unfolding checkLocalSession_def Let_def st1_def [symmetric]
    by (simp add: out st1 flight re ok timerDiscipline_schedule timerDiscipline_setAuthState
        split: promise.splits option.splits list.splits)
qed

text \<open>
  So, in every state that the component reaches, at most one pending timeout belongs to
  any one render, and \<open>signOut\<close> leaves none that belongs to its own.
\<close>

lemma signOut_cancels_own_render:
  assumes "timerDiscipline st" and "t \<in> set (timers (snd (signOut c st)))"
  shows "owner t \<noteq> c"
proof -
  have "timerDiscipline (st\<lparr>localStorage := None\<rparr>)"
    using assms(1) by (simp add: timerDiscipline_def)
  then show ?thesis
    using assms(2) clear_no_own [of "st\<lparr>localStorage := None\<rparr>" t c]
    by (simp add: signOut_def)
qed

lemma one_timer_per_render:
  "length (filter (\<lambda>t. owner t = c) (timers (run pf ops (bootstrap pf stored reply now rounds))))
     \<le> 1"
proof -
  have "timerDiscipline (initial stored)" by (simp add: timerDiscipline_def initial_def)
  then have "timerDiscipline (run pf ops (bootstrap pf stored reply now rounds))"
    unfolding bootstrap_def
    by (intro timerDiscipline_run timerDiscipline_checkLocalSession)
  then show ?thesis by (rule timerDiscipline_one)
qed

text \<open>
  C4. Sign-in, sign-out and sign-in again, each called as the user interface calls them,
  leave two timeouts pending: \<open>signOut\<close> and the second \<open>signIn\<close> run in later renders,
  whose variable \<open>refreshTimer\<close> is a new one and \<open>null\<close>, so neither cancels the timeout
  of the first sign-in. (Within the closures of one render the cancellation works:
  \<open>one_timer_per_render\<close>.)
\<close>

theorem two_timers_pending:
  "timers (run samplePlatform
             [SignIn (loginOk tokenHour) clock [], SignOut, SignIn (loginOk tokenHour) clock []]
             sampleAnonymous)
     = [\<lparr>tid = 1, delay = 3300000, owner = 2\<rparr>, \<lparr>tid = 2, delay = 3300000, owner = 4\<rparr>]"
  by code_simp

subsection \<open>Where the token of a session comes from\<close>


















subsection \<open>signIn\<close>

text \<open>
  C6. When \<open>apiLogin\<close> returns an error, or a payload without token or without user,
  \<open>signIn\<close> returns no user and a non-empty error string, and the state is the one before
  the call.
\<close>

theorem failed_signIn_changes_nothing:
  assumes "loginFailed reply"
  shows "snd (signIn pf c reply now rounds st) = st
         \<and> res_user (fst (signIn pf c reply now rounds st)) = None
         \<and> truthy_str (res_error (fst (signIn pf c reply now rounds st)))"
  using assms
  by (auto simp: loginFailed_def signIn_def truthy_str_def split: option.splits)

theorem failed_signIn_changes_nothing_witness:
  "loginFailed loginDenied
   \<and> snd (signIn samplePlatform 2 loginDenied clock [] sampleAnonymous) = sampleAnonymous
   \<and> res_user (fst (signIn samplePlatform 2 loginDenied clock [] sampleAnonymous)) = None
   \<and> truthy_str (res_error (fst (signIn samplePlatform 2 loginDenied clock [] sampleAnonymous)))"
proof -
  have a: "loginFailed loginDenied"
    by (simp add: loginFailed_def loginDenied_def truthy_str_def)
  show ?thesis
    using failed_signIn_changes_nothing [OF a, where pf = samplePlatform and c = 2
        and now = clock and rounds = "[]" and st = sampleAnonymous] a
    by simp
qed




subsection \<open>signOut\<close>

text \<open>
  C8. After a bootstrap that armed the refresh timer, \<open>signOut\<close>, called once or twice as
  the user interface calls it, leaves the signed-out state and an empty storage slot, but
  the timeout is still pending: \<open>signOut\<close> runs in a later render than the one that armed
  it and finds its own variable \<open>refreshTimer\<close> \<open>null\<close>.
\<close>

theorem signOut_leaves_timer_pending:
  "authState (run samplePlatform [SignOut] sampleSession) = signedOut
   \<and> localStorage (run samplePlatform [SignOut] sampleSession) = None
   \<and> timers (run samplePlatform [SignOut] sampleSession)
       = [\<lparr>tid = 1, delay = 3300000, owner = 0\<rparr>]
   \<and> authState (run samplePlatform [SignOut, SignOut] sampleSession) = signedOut
   \<and> localStorage (run samplePlatform [SignOut, SignOut] sampleSession) = None
   \<and> timers (run samplePlatform [SignOut, SignOut] sampleSession)
       = [\<lparr>tid = 1, delay = 3300000, owner = 0\<rparr>]"
  by code_simp

subsection \<open>The scheduling step\<close>

text \<open>
  C9. For a token whose \<open>exp\<close> claim, in milliseconds, is after the clock by at most
  \<open>REFRESH_BUFFER\<close>, the scheduling step calls \<open>refreshSession\<close> at once: when it returns,
  with the reply outstanding, one call more has been made, no timeout has been armed and
  session and storage are untouched; and however the replies turn out, at least that one
  call has been made.
\<close>

theorem expiring_token_refreshes_at_once:
  assumes "tok \<noteq> []"
    and "property (decodeJwt pf tok) ''exp'' = Some (JNumber e)"
    and "0 \<le> now"
    and "0 < e * 1000 - now"
    and "e * 1000 - now \<le> REFRESH_BUFFER"
  shows "(let st' = checkAndScheduleRefresh pf c (Some tok) now [] st in
            refreshCalls st' = Suc (refreshCalls st)
            \<and> timers st' = timers (clearRefreshTimer c st)
            \<and> refreshTimer st' c = None
            \<and> nextTimerId st' = nextTimerId st
            \<and> authState st' = authState st
            \<and> localStorage st' = localStorage st)
         \<and> Suc (refreshCalls st) \<le> refreshCalls (checkAndScheduleRefresh pf c (Some tok) now rounds st)"
proof -
  have "Suc (refreshCalls st) \<le> refreshCalls (checkAndScheduleRefresh pf c (Some tok) now rounds st)"
  proof (cases rounds)
    case Nil
    then show ?thesis by (simp add: schedule_immediate [OF assms])
  next
    case (Cons r rs)
    obtain ok st2 where r: "refreshAccessToken r (clearRefreshTimer c st) = (ok, st2)"
      by (cases "refreshAccessToken r (clearRefreshTimer c st)")
    have "refreshCalls st2 = Suc (refreshCalls st)"
      using refreshAccessToken_calls [of r "clearRefreshTimer c st"] r by simp
    then show ?thesis
      using Cons r by (simp add: schedule_immediate [OF assms] refreshCalls_mono)
  qed
  then show ?thesis
    by (simp add: schedule_immediate [OF assms])
qed

theorem expiring_token_refreshes_at_once_witness:
  "tokenMinute \<noteq> []
   \<and> property (decodeJwt samplePlatform tokenMinute) ''exp'' = Some (JNumber 1700000060)
   \<and> 0 \<le> clock \<and> 0 < 1700000060 * 1000 - clock
   \<and> 1700000060 * 1000 - clock \<le> REFRESH_BUFFER
   \<and> refreshCalls (checkAndScheduleRefresh samplePlatform 2 (Some tokenMinute) clock []
        sampleAnonymous) = Suc (refreshCalls sampleAnonymous)
   \<and> timers (checkAndScheduleRefresh samplePlatform 2 (Some tokenMinute) clock []
        sampleAnonymous) = []
   \<and> Suc (refreshCalls sampleAnonymous)
       \<le> refreshCalls (checkAndScheduleRefresh samplePlatform 2 (Some tokenMinute) clock
            [refreshOk tokenHour] sampleAnonymous)"
proof -
  have c: "0 \<le> clock" and d: "0 < 1700000060 * 1000 - clock"
    and e: "1700000060 * 1000 - clock \<le> REFRESH_BUFFER"
    by (simp_all add: clock_def REFRESH_BUFFER_def)
  show ?thesis
    using expiring_token_refreshes_at_once [OF sample_nonempty(2) sample_decode(2) c d e,
        where c = 2 and st = sampleAnonymous and rounds = "[refreshOk tokenHour]"]
      c d e sample_decode(2) sample_nonempty(2)
    by (simp add: Let_def clearRefreshTimer_fresh sampleAnonymous_fields)
qed

text \<open>
  C10. \<open>decodeJwt\<close> returns \<open>null\<close> for a token without a payload segment or on whose
  payload \<open>atob\<close> or \<open>JSON.parse\<close> throws. For such a token, and for one whose decoded
  payload has no \<open>exp\<close>, the scheduling step returns after clearing the timer of its render:
  session and storage are as before, no timeout is armed and no refresh is called.
\<close>

theorem undecodable_token_is_left_alone:
  "(undecodable pf tok \<longrightarrow> decodeJwt pf tok = JNull)
   \<and> (tok \<noteq> [] \<and> property (decodeJwt pf tok) ''exp'' = None \<longrightarrow>
        (let st' = checkAndScheduleRefresh pf c (Some tok) now rounds st in
           authState st' = authState st
           \<and> localStorage st' = localStorage st
           \<and> timers st' = timers (clearRefreshTimer c st)
           \<and> nextTimerId st' = nextTimerId st
           \<and> refreshTimer st' c = None
           \<and> refreshCalls st' = refreshCalls st))"
  by (auto simp: undecodable_def decodeJwt_def schedule_skip Let_def
      split: list.splits option.splits)

theorem undecodable_token_is_left_alone_witness:
  "undecodable samplePlatform ''opaque''
   \<and> ''opaque'' \<noteq> []
   \<and> property (decodeJwt samplePlatform ''opaque'') ''exp'' = None
   \<and> decodeJwt samplePlatform ''opaque'' = JNull
   \<and> authState (checkAndScheduleRefresh samplePlatform 0 (Some ''opaque'') clock [] sampleSession)
       = authState sampleSession
   \<and> localStorage (checkAndScheduleRefresh samplePlatform 0 (Some ''opaque'') clock [] sampleSession)
       = localStorage sampleSession
   \<and> refreshCalls (checkAndScheduleRefresh samplePlatform 0 (Some ''opaque'') clock [] sampleSession)
       = refreshCalls sampleSession
   \<and> nextTimerId (checkAndScheduleRefresh samplePlatform 0 (Some ''opaque'') clock [] sampleSession)
       = nextTimerId sampleSession"
proof -
  have a: "undecodable samplePlatform ''opaque''" by code_simp
  have b: "property (decodeJwt samplePlatform ''opaque'') ''exp'' = None" by code_simp
  show ?thesis
    using undecodable_token_is_left_alone [where pf = samplePlatform and tok = "''opaque''"
        and c = 0 and now = clock and rounds = "[]" and st = sampleSession]
      a b
    by (simp add: Let_def)
qed

end
